theory Spec2Isabelle
  imports Complex_Main
begin

section \<open>Strings\<close>

text \<open>
  A JavaScript string is a sequence of UTF-16 code units. The messages of the source that
  are not ASCII are written out as their code units.
\<close>

type_synonym jsstring = "nat list"

definition ascii :: "string \<Rightarrow> jsstring" where
  "ascii s = map of_char s"

text \<open>
  \<^verbatim>\<open>String.prototype.trim\<close> removes the WhiteSpace and LineTerminator code points of
  ECMAScript from both ends.
\<close>

definition isWhiteSpace :: "nat \<Rightarrow> bool" where
  "isWhiteSpace c \<longleftrightarrow>
     c = 0x9 \<or> c = 0xA \<or> c = 0xB \<or> c = 0xC \<or> c = 0xD \<or> c = 0x20 \<or> c = 0xA0 \<or>
     c = 0x1680 \<or> (0x2000 \<le> c \<and> c \<le> 0x200A) \<or> c = 0x2028 \<or> c = 0x2029 \<or>
     c = 0x202F \<or> c = 0x205F \<or> c = 0x3000 \<or> c = 0xFEFF"

definition trim :: "jsstring \<Rightarrow> jsstring" where
  "trim s = rev (dropWhile isWhiteSpace (rev (dropWhile isWhiteSpace s)))"

text \<open>\<^verbatim>\<open>!text\<close> on a value of type string or undefined.\<close>

definition falsy :: "jsstring option \<Rightarrow> bool" where
  "falsy t = (case t of None \<Rightarrow> True | Some s \<Rightarrow> s = [])"

definition msg_start_failed :: jsstring where
  "msg_start_failed = [0x41, 0x49, 0x30BB, 0x30C3, 0x30B7, 0x30E7, 0x30F3, 0x306E, 0x958B,
     0x59CB, 0x306B, 0x5931, 0x6557, 0x3057, 0x307E, 0x3057, 0x305F, 0x3002]"

definition msg_answer_failed :: jsstring where
  "msg_answer_failed = [0x56DE, 0x7B54, 0x306E, 0x51E6, 0x7406, 0x306B, 0x5931, 0x6557,
     0x3057, 0x307E, 0x3057, 0x305F, 0x3002]"

definition msg_report_failed :: jsstring where
  "msg_report_failed = [0x30EC, 0x30DD, 0x30FC, 0x30C8, 0x306E, 0x751F, 0x6210, 0x306B,
     0x5931, 0x6557, 0x3057, 0x307E, 0x3057, 0x305F, 0x3002]"

definition summary_error_ja :: jsstring where
  "summary_error_ja = [0x30EC, 0x30DD, 0x30FC, 0x30C8, 0x306E, 0x751F, 0x6210, 0x4E2D,
     0x306B, 0x30A8, 0x30E9, 0x30FC, 0x304C, 0x767A, 0x751F, 0x3057, 0x307E, 0x3057, 0x305F,
     0x3002]"

definition advice_error_ja :: jsstring where
  "advice_error_ja = [0x3082, 0x3046, 0x4E00, 0x5EA6, 0x304A, 0x8A66, 0x3057, 0x304F,
     0x3060, 0x3055, 0x3044, 0x3002]"

section \<open>JSON values\<close>

text \<open>
  What \<^verbatim>\<open>JSON.parse\<close> returns for a text it accepts. A number is the double that the
  literal denotes: a finite one is kept as the rational number it is, and a literal out
  of range gives an infinity.
\<close>

datatype jsnumber = Finite rat | PlusInfinity | MinusInfinity

datatype json =
  JNull
  | JBool bool
  | JNumber jsnumber
  | JString jsstring
  | JArray "json list"
  | JObject "(jsstring \<times> json) list"

text \<open>The truth value JavaScript gives such a value in a condition.\<close>

fun truthy :: "json \<Rightarrow> bool" where
  "truthy JNull = False"
| "truthy (JBool b) = b"
| "truthy (JNumber n) = (n \<noteq> Finite 0)"
| "truthy (JString s) = (s \<noteq> [])"
| "truthy (JArray xs) = True"
| "truthy (JObject kvs) = True"

section \<open>The data model (types.ts)\<close>

datatype AppStatus =
  IDLE | SETUP | INITIALIZING | INTERVIEW_ACTIVE | PROCESSING_ANSWER | FINISHED

datatype Language = Ja | En

record InterviewQnA =
  id_q :: nat
  question :: jsstring
  answer :: jsstring
  evaluation_q :: "jsstring option"

record FinalResult =
  score :: int
  summary :: jsstring
  goodPoints :: "jsstring list"
  badPoints :: "jsstring list"
  advice :: jsstring

record TurnResponse =
  evaluation :: jsstring
  nextQuestion :: jsstring

text \<open>
  The report of the state is declared \<^verbatim>\<open>FinalResult | null\<close>. At run time it is the
  placeholder that \<^verbatim>\<open>generateFinalReport\<close> builds itself, a record of the declared
  type, or the value that \<^verbatim>\<open>JSON.parse\<close> returned for the response, which the cast to
  \<^verbatim>\<open>FinalResult\<close> lets through whatever its shape. \<open>None\<close> is \<^verbatim>\<open>null\<close>.
\<close>

datatype report = Placeholder FinalResult | Parsed json

record InterviewState =
  status :: AppStatus
  timeLimitMinutes :: int
  timeLeftSeconds :: int
  currentTranscript :: jsstring
  qnaHistory :: "InterviewQnA list"
  finalResult :: "report option"
  isMicActive :: bool
  error :: "jsstring option"
  language :: Language
  isCameraOn :: bool

section \<open>The exchange client (geminiService)\<close>

text \<open>
  What the upstream model does with one request is the environment's choice:
  \<open>Rejects\<close> is a rejected promise (transport failure); \<open>Responds text parsed\<close> is a
  response whose \<^verbatim>\<open>response.text\<close> is \<open>text\<close> (\<open>None\<close> for undefined), and
  \<open>parsed\<close> is what \<^verbatim>\<open>JSON.parse(text)\<close> evaluates to on that text, \<open>None\<close> when
  \<^verbatim>\<open>JSON.parse\<close> throws its SyntaxError.

  The three functions of the client return the parsed value through a cast that checks
  nothing, and never look at it. So they are defined for parsed values of any type
  \<open>'j\<close>: at \<open>json\<close> they are the functions of the source on every text that parses, such
  as \<^verbatim>\<open>{}\<close> or \<^verbatim>\<open>null\<close>; at \<open>TurnResponse\<close> they are the same functions on the
  responses that have the declared shape.
\<close>

datatype 'a upstream = Rejects | Responds "jsstring option" "'a option"

datatype failure =
  TransportError | NoResponseFromAI | JsonSyntaxError | SessionNotStarted
  | NoFinalReportGenerated

text \<open>
  \<^verbatim>\<open>startSession\<close>: the try block throws on an empty text and on a text that does not
  parse; the catch block logs and throws the same error again.
\<close>

definition startSession :: "Language \<Rightarrow> 'j upstream \<Rightarrow> failure + 'j" where
  "startSession lang up =
     (case up of
        Rejects \<Rightarrow> Inl TransportError
      | Responds text parsed \<Rightarrow>
          if falsy text then Inl NoResponseFromAI
          else (case parsed of None \<Rightarrow> Inl JsonSyntaxError | Some r \<Rightarrow> Inr r))"

text \<open>
  \<^verbatim>\<open>sendAnswer\<close>: the first argument is whether the module's \<^verbatim>\<open>chatSession\<close> was
  set when the call was made.
\<close>

definition sendAnswer :: "bool \<Rightarrow> jsstring \<Rightarrow> 'j upstream \<Rightarrow> failure + 'j" where
  "sendAnswer session userAnswer up =
     (if \<not> session then Inl SessionNotStarted
      else (case up of
        Rejects \<Rightarrow> Inl TransportError
      | Responds text parsed \<Rightarrow>
          if falsy text then Inl NoResponseFromAI
          else (case parsed of None \<Rightarrow> Inl JsonSyntaxError | Some r \<Rightarrow> Inr r)))"

text \<open>
  \<^verbatim>\<open>generateFinalReport\<close>: \<open>generateFinalReport_try\<close> is the try block, which returns
  the parsed value as it is, and the catch block replaces every error by the placeholder
  report. The prompt is put together before
  the try block, from the history and the language alone; on values of the declared
  types this cannot throw, and the text of the prompt is left out here, as is the text
  of the other two requests.
\<close>

definition generateFinalReport_try :: "'j upstream \<Rightarrow> failure + 'j" where
  "generateFinalReport_try up =
     (case up of
        Rejects \<Rightarrow> Inl TransportError
      | Responds text parsed \<Rightarrow>
          if falsy text then Inl NoFinalReportGenerated
          else (case parsed of None \<Rightarrow> Inl JsonSyntaxError | Some r \<Rightarrow> Inr r))"

definition errorReport :: "Language \<Rightarrow> FinalResult" where
  "errorReport lang =
     \<lparr> score = 0,
       summary = (if lang = En then ascii ''Error generating report.'' else summary_error_ja),
       goodPoints = [],
       badPoints = [],
       advice = (if lang = En then ascii ''Please try again.'' else advice_error_ja) \<rparr>"

definition generateFinalReport ::
  "InterviewQnA list \<Rightarrow> Language \<Rightarrow> json upstream \<Rightarrow> failure + report" where
  "generateFinalReport history lang up =
     (case generateFinalReport_try up of
        Inr r \<Rightarrow> Inr (Parsed r)
      | Inl err \<Rightarrow> Inr (Placeholder (errorReport lang)))"

section \<open>The component and its hook\<close>

text \<open>
  A handler is a closure of the render that created it: it reads \<^verbatim>\<open>state\<close> and the
  hook's \<^verbatim>\<open>isListening\<close> as they were in that render, also after an await, while
  a functional \<^verbatim>\<open>setState(prev => ...)\<close> works on the state of the moment. The
  callbacks \<^verbatim>\<open>startListening\<close> and \<^verbatim>\<open>stopListening\<close> are memoised on
  \<^verbatim>\<open>isListening\<close>, so the ones a handler holds test the value of its render.
\<close>

record closure =
  c_state :: InterviewState
  c_isListening :: bool

text \<open>
  An exchange call that has been issued and has not settled, with the closure of the
  handler that awaits it and the arguments of the request.
\<close>

datatype call =
  StartSession closure Language
  | SendAnswer closure jsstring bool
  | GenerateFinalReport closure "InterviewQnA list" Language

record app =
  state :: InterviewState
  speechText :: jsstring
  isListening :: bool
  isSpeechSupported :: bool
  apiKey :: bool
  chatSession :: bool
  timerClosure :: closure
  recognitionListening :: bool
  pending :: "call list"

definition render :: "app \<Rightarrow> closure" where
  "render a = \<lparr> c_state = state a, c_isListening = isListening a \<rparr>"

definition setState :: "(InterviewState \<Rightarrow> InterviewState) \<Rightarrow> app \<Rightarrow> app" where
  "setState f a = a\<lparr>state := f (state a)\<rparr>"

subsection \<open>useSpeechRecognition\<close>

text \<open>
  The recognition object exists exactly when the browser supports it. The first
  argument of \<open>startListening\<close> and \<open>stopListening\<close> is the \<^verbatim>\<open>isListening\<close> their
  closure holds.
\<close>

definition startListening :: "bool \<Rightarrow> app \<Rightarrow> app" where
  "startListening l a =
     (if isSpeechSupported a \<and> \<not> l then a\<lparr>speechText := [], isListening := True\<rparr> else a)"

definition stopListening :: "bool \<Rightarrow> app \<Rightarrow> app" where
  "stopListening l a =
     (if isSpeechSupported a \<and> l then a\<lparr>isListening := False\<rparr> else a)"

definition resetText :: "app \<Rightarrow> app" where
  "resetText a = a\<lparr>speechText := []\<rparr>"

subsection \<open>The handlers of App\<close>

text \<open>
  An asynchronous handler is two functions: \<open>_begin\<close> runs up to the await and leaves
  the call among the outstanding ones, and \<open>_resume\<close> is the rest of the handler, run on
  the state of the moment when the call settles, with the closure the handler started
  with. Between the two any other event may be handled. The updates one of these parts
  makes are seen together by the next render.

  \<^verbatim>\<open>startSession\<close> sets the module's \<^verbatim>\<open>chatSession\<close> before its first await, so
  \<open>startInterview_begin\<close> does.
\<close>

definition startInterview_begin :: "closure \<Rightarrow> app \<Rightarrow> app" where
  "startInterview_begin c a =
     (if \<not> apiKey a then a
      else (setState (\<lambda>prev. prev\<lparr>status := INITIALIZING,
                                  timeLeftSeconds := timeLimitMinutes prev * 60,
                                  qnaHistory := [],
                                  finalResult := None,
                                  error := None\<rparr>) a)
           \<lparr>chatSession := True,
            pending := pending a @ [StartSession c (language (c_state c))]\<rparr>)"

definition startInterview_resume :: "closure \<Rightarrow> failure + TurnResponse \<Rightarrow> app \<Rightarrow> app" where
  "startInterview_resume c r a =
     (case r of
        Inr initialData \<Rightarrow>
          (let a1 = setState (\<lambda>prev. prev\<lparr>status := INTERVIEW_ACTIVE,
                       qnaHistory := [\<lparr>id_q = 1, question = nextQuestion initialData,
                                       answer = [], evaluation_q = None\<rparr>]\<rparr>) a
           in if isSpeechSupported a1 then startListening (c_isListening c) (resetText a1)
              else a1)
      | Inl err \<Rightarrow>
          setState (\<lambda>prev. prev\<lparr>status := IDLE, error := Some msg_start_failed\<rparr>) a)"

definition quitInterview :: "closure \<Rightarrow> app \<Rightarrow> app" where
  "quitInterview c a =
     setState (\<lambda>prev. prev\<lparr>status := IDLE, currentTranscript := []\<rparr>)
       (stopListening (c_isListening c) a)"

definition submitAnswer_begin :: "closure \<Rightarrow> app \<Rightarrow> app" where
  "submitAnswer_begin c a =
     (if status (c_state c) \<noteq> INTERVIEW_ACTIVE then a
      else if trim (currentTranscript (c_state c)) = [] then a
      else (setState (\<lambda>prev. prev\<lparr>status := PROCESSING_ANSWER\<rparr>)
              (stopListening (c_isListening c) a))
           \<lparr>pending := pending a @
              [SendAnswer c (currentTranscript (c_state c)) (chatSession a)]\<rparr>)"

text \<open>
  The update of the ledger in \<^verbatim>\<open>submitAnswer\<close>. On an empty array
  \<^verbatim>\<open>newHistory[-1] = ...\<close> sets a property that is no element, so the array stays
  empty until the push.
\<close>

definition closeLast :: "InterviewQnA list \<Rightarrow> jsstring \<Rightarrow> jsstring \<Rightarrow> InterviewQnA list" where
  "closeLast h a e =
     (if h = [] then []
      else h[length h - 1 := (h ! (length h - 1))\<lparr>answer := a, evaluation_q := Some e\<rparr>])"

definition newHistory :: "InterviewQnA list \<Rightarrow> jsstring \<Rightarrow> TurnResponse \<Rightarrow> InterviewQnA list" where
  "newHistory h currentAnswer response =
     closeLast h currentAnswer (evaluation response) @
       [\<lparr>id_q = length (closeLast h currentAnswer (evaluation response)) + 1,
         question = nextQuestion response, answer = [], evaluation_q = None\<rparr>]"

definition submitAnswer_resume ::
  "closure \<Rightarrow> jsstring \<Rightarrow> failure + TurnResponse \<Rightarrow> app \<Rightarrow> app" where
  "submitAnswer_resume c currentAnswer r a =
     (case r of
        Inr response \<Rightarrow>
          startListening (c_isListening c)
            (resetText
              (setState (\<lambda>prev. prev\<lparr>status := INTERVIEW_ACTIVE,
                            qnaHistory := newHistory (qnaHistory prev) currentAnswer response,
                            currentTranscript := []\<rparr>) a))
      | Inl err \<Rightarrow>
          startListening (c_isListening c)
            (setState (\<lambda>prev. prev\<lparr>status := INTERVIEW_ACTIVE,
                          error := Some msg_answer_failed\<rparr>) a))"

definition validHistory :: "InterviewQnA list \<Rightarrow> InterviewQnA list" where
  "validHistory h = filter (\<lambda>q. trim (answer q) \<noteq> []) h"

definition finishInterview_begin :: "closure \<Rightarrow> app \<Rightarrow> app" where
  "finishInterview_begin c a =
     (setState (\<lambda>prev. prev\<lparr>status := PROCESSING_ANSWER\<rparr>)
        (stopListening (c_isListening c) a))
     \<lparr>pending := pending a @
        [GenerateFinalReport c (validHistory (qnaHistory (c_state c))) (language (c_state c))]\<rparr>"

text \<open>
  The report as the state holds it: the \<^verbatim>\<open>null\<close> that \<^verbatim>\<open>JSON.parse\<close> returns for the
  text \<^verbatim>\<open>null\<close> is the \<^verbatim>\<open>null\<close> of the state.
\<close>

definition stored :: "report \<Rightarrow> report option" where
  "stored r = (if r = Parsed JNull then None else Some r)"

definition finishInterview_resume :: "failure + report \<Rightarrow> app \<Rightarrow> app" where
  "finishInterview_resume r a =
     (case r of
        Inr result \<Rightarrow>
          setState (\<lambda>prev. prev\<lparr>status := FINISHED, finalResult := stored result\<rparr>) a
      | Inl err \<Rightarrow>
          setState (\<lambda>prev. prev\<lparr>status := FINISHED, error := Some msg_report_failed\<rparr>) a)"

subsection \<open>The timer\<close>

text \<open>
  The timer effect keeps an interval alive exactly while the status is active and time
  is left; \<open>timeUp\<close> is the branch of its callback that calls \<^verbatim>\<open>finishInterview\<close>,
  the one of the render in which the effect last ran.
\<close>

definition timerRunning :: "app \<Rightarrow> bool" where
  "timerRunning a \<longleftrightarrow> status (state a) = INTERVIEW_ACTIVE \<and> 0 < timeLeftSeconds (state a)"

definition timeUp :: "app \<Rightarrow> bool" where
  "timeUp a \<longleftrightarrow> timerRunning a \<and> timeLeftSeconds (state a) \<le> 1"

definition tick :: "app \<Rightarrow> app" where
  "tick a =
     (if timerRunning a then
        (if timeLeftSeconds (state a) \<le> 1
         then finishInterview_begin (timerClosure a)
                (setState (\<lambda>prev. prev\<lparr>timeLeftSeconds := 0\<rparr>) a)
         else setState (\<lambda>prev. prev\<lparr>timeLeftSeconds := timeLeftSeconds prev - 1\<rparr>) a)
      else a)"

subsection \<open>Events\<close>

datatype event =
  StartInterview
  | QuitInterview
  | SubmitAnswer
  | ReturnHome
  | ToggleMic
  | ToggleCamera
  | SetLanguage Language
  | SetTimeLimit int
  | Tick
  | SpeechResult jsstring
  | SpeechEnd
  | SpeechError
  | SettleTurn nat "TurnResponse upstream"
  | SettleReport nat "json upstream"

text \<open>
  The component stores a report without reading it, so a report call settles with any
  parsed value. It reads the two fields of a turn response, and a turn call settles here
  with a response of the declared shape: what the component does with a turn response of
  another shape, which the client would pass on to it, is not part of this model.
\<close>

datatype screen = SetupScreen | ResultScreen | InterviewScreen

text \<open>\<^verbatim>\<open>state.finalResult\<close> in a condition.\<close>

definition truthyReport :: "report option \<Rightarrow> bool" where
  "truthyReport r =
     (case r of None \<Rightarrow> False | Some (Placeholder p) \<Rightarrow> True | Some (Parsed j) \<Rightarrow> truthy j)"

definition screen :: "app \<Rightarrow> screen" where
  "screen a =
     (if status (state a) = IDLE \<or> status (state a) = SETUP then SetupScreen
      else if status (state a) = FINISHED \<and> truthyReport (finalResult (state a))
      then ResultScreen
      else InterviewScreen)"

definition isTurnCall :: "call \<Rightarrow> bool" where
  "isTurnCall k = (case k of GenerateFinalReport c h l \<Rightarrow> False | _ \<Rightarrow> True)"

text \<open>
  Which events the page offers: a control works on the screen that shows it and while
  it is not disabled, a call settles once and only while it is outstanding, and the
  recognition fires events only where it exists. The screens are told apart by the
  status and the report, as the component does; what a screen draws is not modelled.
\<close>

fun enabled :: "app \<Rightarrow> event \<Rightarrow> bool" where
  "enabled a StartInterview = (screen a = SetupScreen \<and> isSpeechSupported a)"
| "enabled a QuitInterview = (screen a = InterviewScreen)"
| "enabled a SubmitAnswer =
     (screen a = InterviewScreen \<and> trim (currentTranscript (state a)) \<noteq> [] \<and>
      status (state a) \<noteq> PROCESSING_ANSWER)"
| "enabled a ReturnHome = (screen a = ResultScreen)"
| "enabled a ToggleMic = (screen a = InterviewScreen)"
| "enabled a ToggleCamera = (screen a = SetupScreen \<or> screen a = InterviewScreen)"
| "enabled a (SetLanguage l) = (screen a = SetupScreen)"
| "enabled a (SetTimeLimit n) = (screen a = SetupScreen \<and> 1 \<le> n \<and> n \<le> 10)"
| "enabled a Tick = timerRunning a"
| "enabled a (SpeechResult t) = isSpeechSupported a"
| "enabled a SpeechEnd = isSpeechSupported a"
| "enabled a SpeechError = isSpeechSupported a"
| "enabled a (SettleTurn k up) = (k < length (pending a) \<and> isTurnCall (pending a ! k))"
| "enabled a (SettleReport k up) = (k < length (pending a) \<and> \<not> isTurnCall (pending a ! k))"

definition settled :: "nat \<Rightarrow> app \<Rightarrow> app" where
  "settled k a = a\<lparr>pending := take k (pending a) @ drop (Suc k) (pending a)\<rparr>"

fun handle :: "event \<Rightarrow> app \<Rightarrow> app" where
  "handle StartInterview a = startInterview_begin (render a) a"
| "handle QuitInterview a = quitInterview (render a) a"
| "handle SubmitAnswer a = submitAnswer_begin (render a) a"
| "handle ReturnHome a = setState (\<lambda>prev. prev\<lparr>status := IDLE\<rparr>) a"
| "handle ToggleMic a =
     (if isListening a then stopListening (isListening a) a
      else startListening (isListening a) a)"
| "handle ToggleCamera a = setState (\<lambda>p. p\<lparr>isCameraOn := \<not> isCameraOn p\<rparr>) a"
| "handle (SetLanguage l) a =
     (let a1 = setState (\<lambda>p. p\<lparr>language := l\<rparr>) a
      in if l \<noteq> language (state a) then a1\<lparr>recognitionListening := isListening a\<rparr> else a1)"
| "handle (SetTimeLimit n) a = setState (\<lambda>prev. prev\<lparr>timeLimitMinutes := n\<rparr>) a"
| "handle Tick a = tick a"
| "handle (SpeechResult t) a = a\<lparr>speechText := t\<rparr>"
| "handle SpeechEnd a = (if recognitionListening a then a\<lparr>isListening := False\<rparr> else a)"
| "handle SpeechError a = a\<lparr>isListening := False\<rparr>"
| "handle (SettleTurn k up) a =
     (case pending a ! k of
        StartSession c lang \<Rightarrow> startInterview_resume c (startSession lang up) (settled k a)
      | SendAnswer c currentAnswer session \<Rightarrow>
          submitAnswer_resume c currentAnswer (sendAnswer session currentAnswer up) (settled k a)
      | GenerateFinalReport c h lang \<Rightarrow> a)"
| "handle (SettleReport k up) a =
     (case pending a ! k of
        GenerateFinalReport c h lang \<Rightarrow>
          finishInterview_resume (generateFinalReport h lang up) (settled k a)
      | _ \<Rightarrow> a)"

text \<open>
  The effects that run after the render that follows a handler: the timer effect runs
  again when the status or the time left changed, and from then on its callback is the
  one of that render; the transcript effect copies the recognised text into the active
  buffer when the text or the status changed and the status is active.
\<close>

definition effects :: "app \<Rightarrow> app \<Rightarrow> app" where
  "effects old new =
     (let a1 = (if status (state new) \<noteq> status (state old) \<or>
                   timeLeftSeconds (state new) \<noteq> timeLeftSeconds (state old)
                then new\<lparr>timerClosure := render new\<rparr> else new)
      in if (speechText new \<noteq> speechText old \<or> status (state new) \<noteq> status (state old)) \<and>
            status (state new) = INTERVIEW_ACTIVE
         then setState (\<lambda>prev. prev\<lparr>currentTranscript := speechText new\<rparr>) a1
         else a1)"

definition step :: "app \<Rightarrow> event \<Rightarrow> app" where
  "step a e = (if enabled a e then effects a (handle e a) else a)"

fun run :: "app \<Rightarrow> event list \<Rightarrow> app" where
  "run a [] = a"
| "run a (e # es) = run (step a e) es"

text \<open>How often the callback of the timer takes its time-up branch along a run.\<close>

fun timeUpCount :: "app \<Rightarrow> event list \<Rightarrow> nat" where
  "timeUpCount a [] = 0"
| "timeUpCount a (e # es) =
     (if e = Tick \<and> timeUp a then 1 else 0) + timeUpCount (step a e) es"

text \<open>
  The component as it is mounted, in a browser that does or does not support speech
  recognition and with or without an API key.
\<close>

definition initialState :: InterviewState where
  "initialState =
     \<lparr> status = IDLE, timeLimitMinutes = 5, timeLeftSeconds = 0, currentTranscript = [],
       qnaHistory = [], finalResult = None, isMicActive = False, error = None,
       language = Ja, isCameraOn = True \<rparr>"

definition initial :: "bool \<Rightarrow> bool \<Rightarrow> app" where
  "initial supported key =
     \<lparr> state = initialState, speechText = [], isListening = False,
       isSpeechSupported = supported, apiKey = key, chatSession = False,
       timerClosure = \<lparr> c_state = initialState, c_isListening = False \<rparr>,
       recognitionListening = False, pending = [] \<rparr>"

section \<open>Example inputs\<close>

text \<open>The exchange of the specification's scenario, for the concrete instances below.\<close>

definition exampleFirst :: "TurnResponse upstream" where
  "exampleFirst = Responds (Some (ascii ''{...}''))
     (Some \<lparr>evaluation = [], nextQuestion = ascii ''Tell me about yourself''\<rparr>)"

definition exampleNext :: "TurnResponse upstream" where
  "exampleNext = Responds (Some (ascii ''{...}''))
     (Some \<lparr>evaluation = ascii ''Good clarity.'', nextQuestion = ascii ''Why this role?''\<rparr>)"

text \<open>A session of one minute, right after the first question has arrived.\<close>

definition exampleActive :: app where
  "exampleActive =
     run (initial True True) [SetTimeLimit 1, StartInterview, SettleTurn 0 exampleFirst]"

text \<open>The same session when one second is left, and when the time is up.\<close>

definition exampleLastSecond :: app where
  "exampleLastSecond = run exampleActive (replicate 59 Tick)"

definition exampleExpired :: app where
  "exampleExpired = step exampleLastSecond Tick"

text \<open>
  The one-minute session after the candidate has spoken an answer, and after the
  candidate has then switched the microphone off.
\<close>

definition exampleAnswering :: app where
  "exampleAnswering = step exampleActive (SpeechResult (ascii ''I am an engineer.''))"

definition exampleMicOff :: app where
  "exampleMicOff = step exampleAnswering ToggleMic"

section \<open>Basic facts\<close>

lemmas model_defs = initial_def initialState_def step_def effects_def render_def setState_def
  startInterview_begin_def startInterview_resume_def quitInterview_def submitAnswer_begin_def
  submitAnswer_resume_def finishInterview_begin_def finishInterview_resume_def tick_def
  timerRunning_def screen_def isTurnCall_def settled_def startListening_def stopListening_def
  resetText_def startSession_def sendAnswer_def generateFinalReport_def generateFinalReport_try_def
  falsy_def newHistory_def closeLast_def validHistory_def trim_def isWhiteSpace_def ascii_def
  stored_def truthyReport_def
  exampleFirst_def exampleNext_def Let_def

lemma effects_same: "effects a a = a"
  by (simp add: effects_def)

lemma effects_status: "status (state (effects old new)) = status (state new)"
  by (simp add: effects_def setState_def Let_def)

lemma effects_qnaHistory: "qnaHistory (state (effects old new)) = qnaHistory (state new)"
  by (simp add: effects_def setState_def Let_def)

lemma effects_timeLeft: "timeLeftSeconds (state (effects old new)) = timeLeftSeconds (state new)"
  by (simp add: effects_def setState_def Let_def)

lemma effects_finalResult: "finalResult (state (effects old new)) = finalResult (state new)"
  by (simp add: effects_def setState_def Let_def)

lemma effects_error: "error (state (effects old new)) = error (state new)"
  by (simp add: effects_def setState_def Let_def)

lemma effects_pending: "pending (effects old new) = pending new"
  by (simp add: effects_def setState_def Let_def)

lemma effects_isListening: "isListening (effects old new) = isListening new"
  by (simp add: effects_def setState_def Let_def)

lemmas effects_simps = effects_status effects_qnaHistory effects_timeLeft effects_finalResult
  effects_error effects_pending effects_isListening

lemma generateFinalReport_Inr: "\<exists>r. generateFinalReport h lang up = Inr r"
  by (simp add: generateFinalReport_def split: sum.split)

lemma generateFinalReport_try_Inl:
  "(\<exists>err. generateFinalReport_try up = Inl err) \<longleftrightarrow>
     up = Rejects \<or> (\<exists>t p. up = Responds t p \<and> (falsy t \<or> p = None))"
  by (cases up) (auto simp: generateFinalReport_try_def split: option.splits)

lemma settle_report:
  assumes "k < length (pending a)" and "pending a ! k = GenerateFinalReport c h lang"
  shows "step a (SettleReport k up) =
           effects a (finishInterview_resume (generateFinalReport h lang up) (settled k a))"
  using assms by (simp add: step_def isTurnCall_def)

lemma finishInterview_resume_Inr:
  "finishInterview_resume (Inr r) a =
     setState (\<lambda>prev. prev\<lparr>status := FINISHED, finalResult := stored r\<rparr>) a"
  by (simp add: finishInterview_resume_def)

lemma settle_report_finished:
  assumes "k < length (pending a)" and "pending a ! k = GenerateFinalReport c h lang"
  shows "status (state (step a (SettleReport k up))) = FINISHED"
    and "\<exists>r. generateFinalReport h lang up = Inr r \<and>
           finalResult (state (step a (SettleReport k up))) = stored r"
    and "error (state (step a (SettleReport k up))) = error (state a)"
    and "pending (step a (SettleReport k up)) = take k (pending a) @ drop (Suc k) (pending a)"
proof -
  obtain r where r: "generateFinalReport h lang up = Inr r"
    using generateFinalReport_Inr by blast
  have s: "step a (SettleReport k up) = effects a (finishInterview_resume (Inr r) (settled k a))"
    using settle_report [OF assms] r by simp
  show "status (state (step a (SettleReport k up))) = FINISHED"
    by (simp add: s effects_simps finishInterview_resume_Inr setState_def)
  show "\<exists>r. generateFinalReport h lang up = Inr r \<and>
           finalResult (state (step a (SettleReport k up))) = stored r"
    using r by (simp add: s effects_simps finishInterview_resume_Inr setState_def)
  show "error (state (step a (SettleReport k up))) = error (state a)"
    by (simp add: s effects_simps finishInterview_resume_Inr setState_def settled_def)
  show "pending (step a (SettleReport k up)) = take k (pending a) @ drop (Suc k) (pending a)"
    by (simp add: s effects_simps finishInterview_resume_Inr setState_def settled_def)
qed

lemma trim_empty_iff: "trim s = [] \<longleftrightarrow> (\<forall>c \<in> set s. isWhiteSpace c)"
proof
  assume "trim s = []"
  then have all: "\<forall>x \<in> set (dropWhile isWhiteSpace s). isWhiteSpace x"
    by (simp add: trim_def dropWhile_eq_Nil_conv)
  have "dropWhile isWhiteSpace s = []"
  proof (rule ccontr)
    assume ne: "dropWhile isWhiteSpace s \<noteq> []"
    then have "\<not> isWhiteSpace (hd (dropWhile isWhiteSpace s))"
      by (rule hd_dropWhile)
    moreover have "hd (dropWhile isWhiteSpace s) \<in> set (dropWhile isWhiteSpace s)"
      using ne by simp
    ultimately show False using all by blast
  qed
  then show "\<forall>c \<in> set s. isWhiteSpace c"
    by (simp add: dropWhile_eq_Nil_conv)
next
  assume "\<forall>c \<in> set s. isWhiteSpace c"
  then have d: "dropWhile isWhiteSpace s = []"
    by (simp add: dropWhile_eq_Nil_conv)
  show "trim s = []"
    unfolding trim_def d by simp
qed

section \<open>The timer, step by step\<close>

lemma tick_decrement:
  assumes "status (state a) = INTERVIEW_ACTIVE" and "1 < timeLeftSeconds (state a)"
  shows "step a Tick =
           a\<lparr>state := (state a)\<lparr>timeLeftSeconds := timeLeftSeconds (state a) - 1\<rparr>,
             timerClosure := \<lparr>c_state = (state a)\<lparr>timeLeftSeconds := timeLeftSeconds (state a) - 1\<rparr>,
                              c_isListening = isListening a\<rparr>\<rparr>"
  using assms
  by (simp add: step_def tick_def timerRunning_def effects_def setState_def render_def)

lemma tick_timeUp:
  assumes "timeUp a"
  shows "timeLeftSeconds (state a) = 1"
    and "status (state (step a Tick)) = PROCESSING_ANSWER"
    and "timeLeftSeconds (state (step a Tick)) = 0"
    and "pending (step a Tick) = pending a @
           [GenerateFinalReport (timerClosure a)
              (validHistory (qnaHistory (c_state (timerClosure a))))
              (language (c_state (timerClosure a)))]"
    and "qnaHistory (state (step a Tick)) = qnaHistory (state a)"
  using assms
  by (simp_all add: timeUp_def step_def tick_def timerRunning_def effects_simps
      finishInterview_begin_def stopListening_def setState_def)

lemma tick_idle:
  assumes "\<not> timerRunning a"
  shows "step a Tick = a"
  using assms by (simp add: step_def)

lemma countdown:
  assumes "status (state a) = INTERVIEW_ACTIVE" and "int n < timeLeftSeconds (state a)" and "0 < n"
  shows "run a (replicate n Tick) =
           a\<lparr>state := (state a)\<lparr>timeLeftSeconds := timeLeftSeconds (state a) - int n\<rparr>,
             timerClosure := \<lparr>c_state = (state a)\<lparr>timeLeftSeconds := timeLeftSeconds (state a) - int n\<rparr>,
                              c_isListening = isListening a\<rparr>\<rparr>"
  using assms
proof (induction n arbitrary: a)
  case 0
  then show ?case by simp
next
  case (Suc n)
  have one: "1 < timeLeftSeconds (state a)"
    using Suc.prems by simp
  note s = tick_decrement [OF Suc.prems(1) one]
  show ?case
  proof (cases "n = 0")
    case True
    then show ?thesis by (simp add: s)
  next
    case False
    let ?b = "step a Tick"
    have b1: "status (state ?b) = INTERVIEW_ACTIVE"
      using Suc.prems(1) by (simp add: s)
    have b2: "int n < timeLeftSeconds (state ?b)"
      using Suc.prems(2) by (simp add: s)
    have "run ?b (replicate n Tick) =
           ?b\<lparr>state := (state ?b)\<lparr>timeLeftSeconds := timeLeftSeconds (state ?b) - int n\<rparr>,
             timerClosure := \<lparr>c_state = (state ?b)\<lparr>timeLeftSeconds := timeLeftSeconds (state ?b) - int n\<rparr>,
                              c_isListening = isListening ?b\<rparr>\<rparr>"
      using Suc.IH [OF b1 b2] False by simp
    then show ?thesis
      by (simp add: s algebra_simps)
  qed
qed

lemma exampleActive_eq:
  "exampleActive =
     \<lparr> state = \<lparr> status = INTERVIEW_ACTIVE, timeLimitMinutes = 1, timeLeftSeconds = 60,
                 currentTranscript = [],
                 qnaHistory = [\<lparr>id_q = 1, question = ascii ''Tell me about yourself'',
                                 answer = [], evaluation_q = None\<rparr>],
                 finalResult = None, isMicActive = False, error = None, language = Ja,
                 isCameraOn = True \<rparr>,
       speechText = [], isListening = True, isSpeechSupported = True, apiKey = True,
       chatSession = True,
       timerClosure = \<lparr> c_state = \<lparr> status = INTERVIEW_ACTIVE, timeLimitMinutes = 1,
                 timeLeftSeconds = 60, currentTranscript = [],
                 qnaHistory = [\<lparr>id_q = 1, question = ascii ''Tell me about yourself'',
                                 answer = [], evaluation_q = None\<rparr>],
                 finalResult = None, isMicActive = False, error = None, language = Ja,
                 isCameraOn = True \<rparr>, c_isListening = True \<rparr>,
       recognitionListening = False, pending = [] \<rparr>"
  by (simp add: exampleActive_def model_defs)

lemma exampleLastSecond_eq:
  "exampleLastSecond =
     \<lparr> state = \<lparr> status = INTERVIEW_ACTIVE, timeLimitMinutes = 1, timeLeftSeconds = 1,
                 currentTranscript = [],
                 qnaHistory = [\<lparr>id_q = 1, question = ascii ''Tell me about yourself'',
                                 answer = [], evaluation_q = None\<rparr>],
                 finalResult = None, isMicActive = False, error = None, language = Ja,
                 isCameraOn = True \<rparr>,
       speechText = [], isListening = True, isSpeechSupported = True, apiKey = True,
       chatSession = True,
       timerClosure = \<lparr> c_state = \<lparr> status = INTERVIEW_ACTIVE, timeLimitMinutes = 1,
                 timeLeftSeconds = 1, currentTranscript = [],
                 qnaHistory = [\<lparr>id_q = 1, question = ascii ''Tell me about yourself'',
                                 answer = [], evaluation_q = None\<rparr>],
                 finalResult = None, isMicActive = False, error = None, language = Ja,
                 isCameraOn = True \<rparr>, c_isListening = True \<rparr>,
       recognitionListening = False, pending = [] \<rparr>"
proof -
  have "status (state exampleActive) = INTERVIEW_ACTIVE"
    and "int 59 < timeLeftSeconds (state exampleActive)"
    by (simp_all add: exampleActive_eq)
  from countdown [OF this] show ?thesis
    by (simp add: exampleLastSecond_def exampleActive_eq)
qed

lemma exampleLastSecond_timeUp: "timeUp exampleLastSecond"
  by (simp add: timeUp_def timerRunning_def exampleLastSecond_eq)

lemma exampleExpired_pending:
  "pending exampleExpired =
     [GenerateFinalReport (timerClosure exampleLastSecond) [] Ja]"
  by (simp add: exampleExpired_def tick_timeUp(4) [OF exampleLastSecond_timeUp])
     (simp add: exampleLastSecond_eq validHistory_def trim_def)

section \<open>Deadline expiry and the final report\<close>

text \<open>
  C1. When the timer's callback finds the last second gone while the status is active
  (\<open>timeUp\<close>), that tick moves the session to the processing status with zero seconds
  left, whatever the active buffer holds, and issues one report request; the request
  carries the turns of the ledger (as the timer's callback sees it) whose answer is
  non-empty after trimming, so an open turn is left out; and whatever the upstream does
  with that request, settling it moves the session to the finished status, at once or
  after any other events: a report request that settles finishes the session in every
  state.
\<close>

theorem deadline_expiry_finishes:
  assumes "timeUp a"
  shows "status (state (step a Tick)) = PROCESSING_ANSWER \<and>
         timeLeftSeconds (state (step a Tick)) = 0 \<and>
         pending (step a Tick) = pending a @
           [GenerateFinalReport (timerClosure a)
              (filter (\<lambda>q. trim (answer q) \<noteq> []) (qnaHistory (c_state (timerClosure a))))
              (language (c_state (timerClosure a)))] \<and>
         (\<forall>q \<in> set (filter (\<lambda>q. trim (answer q) \<noteq> [])
                        (qnaHistory (c_state (timerClosure a)))). trim (answer q) \<noteq> []) \<and>
         (\<forall>up. status (state (step (step a Tick) (SettleReport (length (pending a)) up))) =
                 FINISHED) \<and>
         (\<forall>b k c h lang up.
            k < length (pending b) \<and> pending b ! k = GenerateFinalReport c h lang \<longrightarrow>
            status (state (step b (SettleReport k up))) = FINISHED)"
proof -
  let ?b = "step a Tick"
  let ?h = "validHistory (qnaHistory (c_state (timerClosure a)))"
  have p: "pending ?b = pending a @
      [GenerateFinalReport (timerClosure a) ?h (language (c_state (timerClosure a)))]"
    using tick_timeUp(4) [OF assms] .
  then have k: "length (pending a) < length (pending ?b)"
    and c: "pending ?b ! length (pending a) =
      GenerateFinalReport (timerClosure a) ?h (language (c_state (timerClosure a)))"
    by simp_all
  have f: "\<forall>up. status (state (step ?b (SettleReport (length (pending a)) up))) = FINISHED"
    using settle_report_finished(1) [OF k c] by blast
  have g: "\<forall>b k c h lang up.
      k < length (pending b) \<and> pending b ! k = GenerateFinalReport c h lang \<longrightarrow>
      status (state (step b (SettleReport k up))) = FINISHED"
    using settle_report_finished(1) by blast
  show ?thesis
    using tick_timeUp(2,3) [OF assms] p f g by (simp add: validHistory_def)
qed

theorem deadline_expiry_finishes_witness:
  "timeUp exampleLastSecond \<and>
   currentTranscript (state exampleLastSecond) = [] \<and>
   status (state (step exampleLastSecond Tick)) = PROCESSING_ANSWER \<and>
   timeLeftSeconds (state (step exampleLastSecond Tick)) = 0 \<and>
   pending (step exampleLastSecond Tick) =
     [GenerateFinalReport (timerClosure exampleLastSecond) [] Ja] \<and>
   status (state (step (step exampleLastSecond Tick) (SettleReport 0 Rejects))) = FINISHED"
proof -
  have p: "pending exampleLastSecond = []"
    and h: "filter (\<lambda>q. trim (answer q) \<noteq> [])
              (qnaHistory (c_state (timerClosure exampleLastSecond))) = []"
    and l: "language (c_state (timerClosure exampleLastSecond)) = Ja"
    and t: "currentTranscript (state exampleLastSecond) = []"
    by (simp_all add: exampleLastSecond_eq trim_def)
  from deadline_expiry_finishes [OF exampleLastSecond_timeUp] p h l
  have "status (state (step exampleLastSecond Tick)) = PROCESSING_ANSWER"
    and "timeLeftSeconds (state (step exampleLastSecond Tick)) = 0"
    and "pending (step exampleLastSecond Tick) =
           [GenerateFinalReport (timerClosure exampleLastSecond) [] Ja]"
    and "status (state (step (step exampleLastSecond Tick) (SettleReport 0 Rejects))) = FINISHED"
    by simp_all
  with exampleLastSecond_timeUp t show ?thesis by blast
qed

text \<open>
  C7. Whenever the report request fails, by a rejected call, an empty text or a text that
  does not parse, \<open>generateFinalReport\<close> answers with the placeholder report, whose score is
  0 and whose summary is the fixed explanatory message of the session's language, and the
  session that awaited the report is finished with that report.
\<close>

theorem report_failure_degraded:
  assumes "up = Rejects \<or> (\<exists>t p. up = Responds t p \<and> (falsy t \<or> p = None))"
    and "k < length (pending a)"
    and "pending a ! k = GenerateFinalReport c h lang"
  shows "generateFinalReport h lang up = Inr (Placeholder (errorReport lang)) \<and>
         status (state (step a (SettleReport k up))) = FINISHED \<and>
         finalResult (state (step a (SettleReport k up))) =
           Some (Placeholder (errorReport lang)) \<and>
         score (errorReport lang) = 0 \<and>
         summary (errorReport lang) =
           (if lang = En then ascii ''Error generating report.'' else summary_error_ja) \<and>
         summary (errorReport lang) \<noteq> []"
proof -
  obtain err where "generateFinalReport_try up = Inl err"
    using assms(1) generateFinalReport_try_Inl by blast
  then have g: "generateFinalReport h lang up = Inr (Placeholder (errorReport lang))"
    by (simp add: generateFinalReport_def)
  have "\<exists>r. generateFinalReport h lang up = Inr r \<and>
           finalResult (state (step a (SettleReport k up))) = stored r"
    using settle_report_finished(2) [OF assms(2,3)] .
  with g have f: "finalResult (state (step a (SettleReport k up))) =
      Some (Placeholder (errorReport lang))"
    by (simp add: stored_def)
  have s: "status (state (step a (SettleReport k up))) = FINISHED"
    using settle_report_finished(1) [OF assms(2,3)] .
  have e: "summary (errorReport lang) \<noteq> []"
    by (simp add: errorReport_def ascii_def summary_error_ja_def)
  show ?thesis using g f s e by (simp add: errorReport_def)
qed

theorem report_failure_degraded_witness:
  "status (state (step exampleExpired (SettleReport 0 (Responds (Some (ascii ''{'')) None)))) =
     FINISHED \<and>
   finalResult (state (step exampleExpired (SettleReport 0 (Responds (Some (ascii ''{'')) None)))) =
     Some (Placeholder \<lparr> score = 0, summary = summary_error_ja, goodPoints = [],
            badPoints = [], advice = advice_error_ja \<rparr>)"
proof -
  have k: "0 < length (pending exampleExpired)"
    and c: "pending exampleExpired ! 0 =
              GenerateFinalReport (timerClosure exampleLastSecond) [] Ja"
    by (simp_all add: exampleExpired_pending)
  have u: "Responds (Some (ascii ''{'')) None = (Rejects :: json upstream) \<or>
           (\<exists>t p. Responds (Some (ascii ''{'')) None = (Responds t p :: json upstream) \<and>
                  (falsy t \<or> p = None))"
    by simp
  from report_failure_degraded [OF u k c] show ?thesis
    by (simp add: errorReport_def)
qed




section \<open>Submitting\<close>

text \<open>
  C4. When the status is not active, or the active buffer is empty after trimming, which
  is when it holds nothing but white space, \<open>submitAnswer\<close> returns at once: the whole application
  state is as before, so neither the status nor the ledger changes and no exchange call
  joins the outstanding ones.
\<close>

theorem submit_noop:
  assumes "status (state a) \<noteq> INTERVIEW_ACTIVE \<or>
           trim (currentTranscript (state a)) = [] \<or>
           (\<forall>c \<in> set (currentTranscript (state a)). isWhiteSpace c)"
  shows "submitAnswer_begin (render a) a = a \<and> step a SubmitAnswer = a \<and>
         status (state (step a SubmitAnswer)) = status (state a) \<and>
         qnaHistory (state (step a SubmitAnswer)) = qnaHistory (state a) \<and>
         pending (step a SubmitAnswer) = pending a"
proof -
  have "status (state a) \<noteq> INTERVIEW_ACTIVE \<or> trim (currentTranscript (state a)) = []"
    using assms trim_empty_iff by blast
  then have b: "submitAnswer_begin (render a) a = a"
    by (auto simp: submitAnswer_begin_def render_def)
  then have "step a SubmitAnswer = a"
    by (simp add: step_def effects_same)
  with b show ?thesis by simp
qed

theorem submit_noop_witness:
  "currentTranscript (state (step exampleActive (SpeechResult [0x20, 0x3000, 0xA]))) =
     [0x20, 0x3000, 0xA] \<and>
   step (step exampleActive (SpeechResult [0x20, 0x3000, 0xA])) SubmitAnswer =
     step exampleActive (SpeechResult [0x20, 0x3000, 0xA])"
proof -
  have c: "currentTranscript (state (step exampleActive (SpeechResult [0x20, 0x3000, 0xA]))) =
     [0x20, 0x3000, 0xA]"
    by (simp add: exampleActive_eq step_def effects_def setState_def)
  then have "trim (currentTranscript (state (step exampleActive
     (SpeechResult [0x20, 0x3000, 0xA])))) = []"
    by (simp add: trim_def isWhiteSpace_def)
  with c show ?thesis
    using submit_noop [of "step exampleActive (SpeechResult [0x20, 0x3000, 0xA])"]
    by blast
qed

section \<open>The ledger\<close>

lemma closeLast_length: "length (closeLast h a e) = length h"
  by (simp add: closeLast_def)

lemma closeLast_ids: "map id_q (closeLast h a e) = map id_q h"
proof (cases "h = []")
  case True
  then show ?thesis by (simp add: closeLast_def)
next
  case False
  then have "length h - 1 < length h" by (cases h) simp_all
  then have "(map id_q h)[length h - 1 := id_q (h ! (length h - 1))] = map id_q h"
    by (simp add: list_update_same_conv)
  with False show ?thesis
    by (simp add: closeLast_def map_update)
qed

lemma newHistory_length: "length (newHistory h a r) = Suc (length h)"
  by (simp add: newHistory_def closeLast_length)

lemma newHistory_ids:
  assumes "map id_q h = [1..<Suc (length h)]"
  shows "map id_q (newHistory h a r) = [1..<Suc (length (newHistory h a r))]"
  using assms by (simp add: newHistory_def closeLast_ids closeLast_length)

lemma handle_qnaHistory:
  "qnaHistory (state (handle e a)) = qnaHistory (state a) \<or>
   qnaHistory (state (handle e a)) = [] \<or>
   (\<exists>q. qnaHistory (state (handle e a)) =
          [\<lparr>id_q = 1, question = q, answer = [], evaluation_q = None\<rparr>]) \<or>
   (\<exists>ans r. qnaHistory (state (handle e a)) = newHistory (qnaHistory (state a)) ans r)"
proof (cases e)
  case StartInterview
  then show ?thesis by (simp add: startInterview_begin_def setState_def)
next
  case QuitInterview
  then show ?thesis by (simp add: quitInterview_def setState_def stopListening_def)
next
  case SubmitAnswer
  then show ?thesis by (simp add: submitAnswer_begin_def setState_def stopListening_def)
next
  case ReturnHome
  then show ?thesis by (simp add: setState_def)
next
  case ToggleMic
  then show ?thesis by (simp add: startListening_def stopListening_def)
next
  case ToggleCamera
  then show ?thesis by (simp add: setState_def)
next
  case (SetLanguage l)
  then show ?thesis by (simp add: setState_def Let_def)
next
  case (SetTimeLimit n)
  then show ?thesis by (simp add: setState_def)
next
  case Tick
  then show ?thesis
    by (simp add: tick_def finishInterview_begin_def setState_def stopListening_def)
next
  case (SpeechResult t)
  then show ?thesis by simp
next
  case SpeechEnd
  then show ?thesis by simp
next
  case SpeechError
  then show ?thesis by simp
next
  case (SettleTurn k up)
  show ?thesis
  proof (cases "pending a ! k")
    case (StartSession c lang)
    then show ?thesis
      using SettleTurn
      by (cases "startSession lang up")
         (simp_all add: startInterview_resume_def setState_def settled_def startListening_def
            resetText_def Let_def)
  next
    case (SendAnswer c ans session)
    then show ?thesis
      using SettleTurn
      by (cases "sendAnswer session ans up")
         (auto simp: submitAnswer_resume_def setState_def settled_def startListening_def
            resetText_def)
  next
    case (GenerateFinalReport c h lang)
    then show ?thesis using SettleTurn by simp
  qed
next
  case (SettleReport k up)
  show ?thesis
  proof (cases "pending a ! k")
    case (GenerateFinalReport c h lang)
    then show ?thesis
      using SettleReport
      by (cases "generateFinalReport h lang up")
         (simp_all add: finishInterview_resume_def setState_def settled_def)
  qed (simp_all add: SettleReport)
qed

lemma step_qnaHistory:
  "qnaHistory (state (step a e)) = qnaHistory (state a) \<or>
   qnaHistory (state (step a e)) = [] \<or>
   (\<exists>q. qnaHistory (state (step a e)) =
          [\<lparr>id_q = 1, question = q, answer = [], evaluation_q = None\<rparr>]) \<or>
   (\<exists>ans r. qnaHistory (state (step a e)) = newHistory (qnaHistory (state a)) ans r)"
proof (cases "enabled a e")
  case True
  then show ?thesis
    using handle_qnaHistory [of e a] by (simp add: step_def effects_qnaHistory)
next
  case False
  then show ?thesis by (simp add: step_def)
qed

lemma step_ids:
  assumes "map id_q (qnaHistory (state a)) = [1..<Suc (length (qnaHistory (state a)))]"
  shows "map id_q (qnaHistory (state (step a e))) =
           [1..<Suc (length (qnaHistory (state (step a e))))]"
  using step_qnaHistory [of a e] assms newHistory_ids
  by (elim disjE exE) simp_all

lemma run_ids:
  assumes "map id_q (qnaHistory (state a)) = [1..<Suc (length (qnaHistory (state a)))]"
  shows "map id_q (qnaHistory (state (run a evs))) =
           [1..<Suc (length (qnaHistory (state (run a evs))))]"
  using assms
proof (induction evs arbitrary: a)
  case Nil
  then show ?case by simp
next
  case (Cons e evs)
  then show ?case by (simp add: step_ids)
qed

lemma ids_nth:
  assumes "map id_q h = [1..<Suc (length h)]" and "i < length h"
  shows "id_q (h ! i) = Suc i"
proof -
  have "id_q (h ! i) = map id_q h ! i"
    using assms(2) by simp
  also have "\<dots> = [1..<Suc (length h)] ! i"
    by (simp only: assms(1))
  also have "\<dots> = 1 + i"
    by (rule nth_upt) (use assms(2) in simp)
  finally show ?thesis by simp
qed

text \<open>
  C2. After every sequence of events from the mounted component (controls, ticks,
  recognition events and settling calls, in any order), the ids of the ledger are
  1, 2, ..., N in this order; and a turn that stays in the ledger keeps the id it was
  created with: after any further events the turn at a position that both ledgers have
  carries the same id.
\<close>

theorem ledger_ids_sequential:
  "map id_q (qnaHistory (state (run (initial supported key) evs))) =
     [1..<Suc (length (qnaHistory (state (run (initial supported key) evs))))] \<and>
   (\<forall>i. i < length (qnaHistory (state (run (initial supported key) evs))) \<and>
        i < length (qnaHistory (state (run (initial supported key) (evs @ evs')))) \<longrightarrow>
        id_q (qnaHistory (state (run (initial supported key) (evs @ evs'))) ! i) =
        id_q (qnaHistory (state (run (initial supported key) evs)) ! i))"
proof -
  have init: "map id_q (qnaHistory (state (initial supported key))) =
      [1..<Suc (length (qnaHistory (state (initial supported key))))]"
    by (simp add: initial_def initialState_def)
  have a: "map id_q (qnaHistory (state (run (initial supported key) evs))) =
     [1..<Suc (length (qnaHistory (state (run (initial supported key) evs))))]"
    using run_ids [OF init] .
  have b: "map id_q (qnaHistory (state (run (initial supported key) (evs @ evs')))) =
     [1..<Suc (length (qnaHistory (state (run (initial supported key) (evs @ evs')))))]"
    using run_ids [OF init] .
  show ?thesis
    using a ids_nth [OF a] ids_nth [OF b] by simp
qed

theorem ledger_ids_sequential_witness:
  "map id_q (qnaHistory (state (run (initial True True)
      ([StartInterview, SettleTurn 0 exampleFirst] @
       [SpeechResult (ascii ''I am an engineer.''), SubmitAnswer, SettleTurn 0 exampleNext])))) =
     [1, 2] \<and>
   id_q (qnaHistory (state (run (initial True True)
      ([StartInterview, SettleTurn 0 exampleFirst] @
       [SpeechResult (ascii ''I am an engineer.''), SubmitAnswer, SettleTurn 0 exampleNext])))
      ! 0) =
   id_q (qnaHistory (state (run (initial True True)
      [StartInterview, SettleTurn 0 exampleFirst])) ! 0)"
proof -
  let ?old = "qnaHistory (state (run (initial True True)
      [StartInterview, SettleTurn 0 exampleFirst]))"
  let ?new = "qnaHistory (state (run (initial True True)
      ([StartInterview, SettleTurn 0 exampleFirst] @
       [SpeechResult (ascii ''I am an engineer.''), SubmitAnswer, SettleTurn 0 exampleNext])))"
  have l1: "length ?old = 1"
    by (simp add: model_defs)
  have l2: "length ?new = 2"
    by (simp add: model_defs)
  have t1: "map id_q ?new = [1..<Suc (length ?new)]"
    using ledger_ids_sequential
      [of True True "[StartInterview, SettleTurn 0 exampleFirst] @
       [SpeechResult (ascii ''I am an engineer.''), SubmitAnswer, SettleTurn 0 exampleNext]" "[]"]
    by blast
  have "[1..<Suc 2] = [1, 2::nat]"
    by (simp add: upt_rec)
  with t1 have a: "map id_q ?new = [1, 2]"
    by (simp only: l2)
  have t2: "0 < length ?old \<and> 0 < length ?new \<longrightarrow> id_q (?new ! 0) = id_q (?old ! 0)"
    using ledger_ids_sequential [of True True "[StartInterview, SettleTurn 0 exampleFirst]"
      "[SpeechResult (ascii ''I am an engineer.''), SubmitAnswer, SettleTurn 0 exampleNext]"]
    by blast
  have "0 < length ?old \<and> 0 < length ?new"
    by (simp only: l1 l2) simp
  with t2 have b: "id_q (?new ! 0) = id_q (?old ! 0)"
    by blast
  from a b show ?thesis by blast
qed

section \<open>The remaining time along a run\<close>

lemma handle_timeLeft:
  assumes "e \<noteq> Tick" and "e \<noteq> StartInterview"
  shows "timeLeftSeconds (state (handle e a)) = timeLeftSeconds (state a)"
proof (cases e)
  case (SettleTurn k up)
  show ?thesis
  proof (cases "pending a ! k")
    case (StartSession c lang)
    then show ?thesis
      using SettleTurn
      by (cases "startSession lang up")
         (simp_all add: startInterview_resume_def setState_def settled_def startListening_def
            resetText_def Let_def)
  next
    case (SendAnswer c ans session)
    then show ?thesis
      using SettleTurn
      by (cases "sendAnswer session ans up")
         (simp_all add: submitAnswer_resume_def setState_def settled_def startListening_def
            resetText_def)
  next
    case (GenerateFinalReport c h lang)
    then show ?thesis using SettleTurn by simp
  qed
next
  case (SettleReport k up)
  show ?thesis
  proof (cases "pending a ! k")
    case (GenerateFinalReport c h lang)
    then show ?thesis
      using SettleReport
      by (cases "generateFinalReport h lang up")
         (simp_all add: finishInterview_resume_def setState_def settled_def)
  qed (simp_all add: SettleReport)
qed (use assms in \<open>simp_all add: quitInterview_def submitAnswer_begin_def setState_def
       stopListening_def startListening_def Let_def\<close>)

lemma step_timeLeft:
  assumes "e \<noteq> Tick" and "e \<noteq> StartInterview"
  shows "timeLeftSeconds (state (step a e)) = timeLeftSeconds (state a)"
  using handle_timeLeft [OF assms] by (simp add: step_def effects_timeLeft)

lemma run_timeLeft:
  assumes "Tick \<notin> set evs" and "StartInterview \<notin> set evs"
  shows "timeLeftSeconds (state (run a evs)) = timeLeftSeconds (state a)"
  using assms
proof (induction evs arbitrary: a)
  case Nil
  then show ?case by simp
next
  case (Cons e evs)
  then have "e \<noteq> Tick" and "e \<noteq> StartInterview" by auto
  then have "timeLeftSeconds (state (step a e)) = timeLeftSeconds (state a)"
    by (rule step_timeLeft)
  with Cons show ?case by simp
qed

lemma step_timeLeft_spent:
  assumes "timeLeftSeconds (state a) \<le> 0" and "e \<noteq> StartInterview"
  shows "timeLeftSeconds (state (step a e)) \<le> 0"
proof (cases "e = Tick")
  case True
  have "\<not> timerRunning a"
    using assms(1) by (simp add: timerRunning_def)
  then show ?thesis
    using True assms(1) by (simp add: tick_idle)
next
  case False
  then show ?thesis
    using assms by (simp add: step_timeLeft)
qed

lemma timeUpCount_spent:
  assumes "timeLeftSeconds (state a) \<le> 0" and "StartInterview \<notin> set evs"
  shows "timeUpCount a evs = 0"
  using assms
proof (induction evs arbitrary: a)
  case Nil
  then show ?case by simp
next
  case (Cons e evs)
  have "\<not> timeUp a"
    using Cons.prems(1) by (simp add: timeUp_def timerRunning_def)
  moreover have "timeUpCount (step a e) evs = 0"
  proof -
    have ne: "e \<noteq> StartInterview" and rest: "StartInterview \<notin> set evs"
      using Cons.prems(2) by auto
    have "timeLeftSeconds (state (step a e)) \<le> 0"
      using step_timeLeft_spent [OF Cons.prems(1) ne] .
    then show ?thesis
      using rest by (rule Cons.IH)
  qed
  ultimately show ?case by simp
qed

lemma timeUpCount_le_one:
  assumes "StartInterview \<notin> set evs"
  shows "timeUpCount a evs \<le> 1"
  using assms
proof (induction evs arbitrary: a)
  case Nil
  then show ?case by simp
next
  case (Cons e evs)
  show ?case
  proof (cases "e = Tick \<and> timeUp a")
    case True
    then have "timeLeftSeconds (state (step a e)) \<le> 0"
      using tick_timeUp(3) [of a] by simp
    then have "timeUpCount (step a e) evs = 0"
      using Cons.prems by (simp add: timeUpCount_spent)
    with True show ?thesis by simp
  next
    case False
    then show ?thesis
      using Cons.IH [of "step a e"] Cons.prems by auto
  qed
qed

lemma timeUpCount_countdown:
  assumes "status (state a) = INTERVIEW_ACTIVE" and "timeLeftSeconds (state a) = int (Suc n)"
  shows "timeUpCount a (replicate (Suc n) Tick) = 1"
  using assms
proof (induction n arbitrary: a)
  case 0
  then have "timeUp a"
    by (simp add: timeUp_def timerRunning_def)
  then show ?case by simp
next
  case (Suc n)
  have one: "1 < timeLeftSeconds (state a)"
    using Suc.prems(2) by simp
  then have no: "\<not> timeUp a"
    by (simp add: timeUp_def)
  note s = tick_decrement [OF Suc.prems(1) one]
  have "status (state (step a Tick)) = INTERVIEW_ACTIVE"
    and "timeLeftSeconds (state (step a Tick)) = int (Suc n)"
    using Suc.prems by (simp_all add: s)
  then have "timeUpCount (step a Tick) (replicate (Suc n) Tick) = 1"
    by (rule Suc.IH)
  with no show ?case by simp
qed

section \<open>The example session\<close>

lemma exampleAnswering_eq:
  "exampleAnswering =
     \<lparr> state = \<lparr> status = INTERVIEW_ACTIVE, timeLimitMinutes = 1, timeLeftSeconds = 60,
                 currentTranscript = ascii ''I am an engineer.'',
                 qnaHistory = [\<lparr>id_q = 1, question = ascii ''Tell me about yourself'',
                                 answer = [], evaluation_q = None\<rparr>],
                 finalResult = None, isMicActive = False, error = None, language = Ja,
                 isCameraOn = True \<rparr>,
       speechText = ascii ''I am an engineer.'', isListening = True, isSpeechSupported = True,
       apiKey = True, chatSession = True,
       timerClosure = \<lparr> c_state = \<lparr> status = INTERVIEW_ACTIVE, timeLimitMinutes = 1,
                 timeLeftSeconds = 60, currentTranscript = [],
                 qnaHistory = [\<lparr>id_q = 1, question = ascii ''Tell me about yourself'',
                                 answer = [], evaluation_q = None\<rparr>],
                 finalResult = None, isMicActive = False, error = None, language = Ja,
                 isCameraOn = True \<rparr>, c_isListening = True \<rparr>,
       recognitionListening = False, pending = [] \<rparr>"
  by (simp add: exampleAnswering_def exampleActive_eq step_def effects_def setState_def ascii_def)

lemma exampleMicOff_eq:
  "exampleMicOff = exampleAnswering\<lparr>isListening := False\<rparr>"
  by (simp add: exampleMicOff_def exampleAnswering_eq step_def effects_def setState_def
      screen_def stopListening_def)

section \<open>The timer\<close>

text \<open>
  C6. A tick takes exactly one second off while the status is active and more than one
  second is left, and does nothing in any other status; no event but a tick or the start
  of a session changes the remaining time, so it is frozen when the status becomes
  processing and the countdown goes on from the same value when the status is active
  again; the callback takes its time-up branch only with one second left and leaves
  exactly zero; along a run without a new start it takes that branch at most once, and
  exactly once when an active session of n + 1 seconds receives n + 1 ticks.
\<close>

theorem timer_discipline:
  "(status (state a) = INTERVIEW_ACTIVE \<and> 1 < timeLeftSeconds (state a) \<longrightarrow>
      timeLeftSeconds (state (step a Tick)) = timeLeftSeconds (state a) - 1 \<and>
      status (state (step a Tick)) = INTERVIEW_ACTIVE) \<and>
   (status (state a) \<noteq> INTERVIEW_ACTIVE \<longrightarrow> step a Tick = a) \<and>
   (Tick \<notin> set evs \<and> StartInterview \<notin> set evs \<longrightarrow>
      timeLeftSeconds (state (run a evs)) = timeLeftSeconds (state a)) \<and>
   (timeUp a \<longrightarrow>
      timeLeftSeconds (state a) = 1 \<and> timeLeftSeconds (state (step a Tick)) = 0 \<and>
      status (state (step a Tick)) = PROCESSING_ANSWER) \<and>
   (StartInterview \<notin> set evs \<longrightarrow> timeUpCount a evs \<le> 1) \<and>
   (status (state a) = INTERVIEW_ACTIVE \<and> timeLeftSeconds (state a) = int (Suc n) \<longrightarrow>
      timeUpCount a (replicate (Suc n) Tick) = 1)"
proof (intro conjI impI)
  assume h: "status (state a) = INTERVIEW_ACTIVE \<and> 1 < timeLeftSeconds (state a)"
  then have s: "step a Tick =
      a\<lparr>state := (state a)\<lparr>timeLeftSeconds := timeLeftSeconds (state a) - 1\<rparr>,
        timerClosure := \<lparr>c_state = (state a)\<lparr>timeLeftSeconds := timeLeftSeconds (state a) - 1\<rparr>,
                         c_isListening = isListening a\<rparr>\<rparr>"
    using tick_decrement by blast
  show "timeLeftSeconds (state (step a Tick)) = timeLeftSeconds (state a) - 1"
    by (simp add: s)
  show "status (state (step a Tick)) = INTERVIEW_ACTIVE"
    using h by (simp add: s)
next
  assume "status (state a) \<noteq> INTERVIEW_ACTIVE"
  then have "\<not> timerRunning a"
    by (simp add: timerRunning_def)
  then show "step a Tick = a"
    by (rule tick_idle)
next
  assume "Tick \<notin> set evs \<and> StartInterview \<notin> set evs"
  then show "timeLeftSeconds (state (run a evs)) = timeLeftSeconds (state a)"
    using run_timeLeft by blast
next
  assume t: "timeUp a"
  show "timeLeftSeconds (state a) = 1"
    using tick_timeUp(1) [OF t] .
  show "timeLeftSeconds (state (step a Tick)) = 0"
    using tick_timeUp(3) [OF t] .
  show "status (state (step a Tick)) = PROCESSING_ANSWER"
    using tick_timeUp(2) [OF t] .
next
  assume "StartInterview \<notin> set evs"
  then show "timeUpCount a evs \<le> 1"
    by (rule timeUpCount_le_one)
next
  assume "status (state a) = INTERVIEW_ACTIVE \<and> timeLeftSeconds (state a) = int (Suc n)"
  then show "timeUpCount a (replicate (Suc n) Tick) = 1"
    using timeUpCount_countdown by blast
qed

theorem timer_discipline_witness:
  "timeLeftSeconds (state exampleAnswering) = 60 \<and>
   timeLeftSeconds (state (step exampleAnswering Tick)) = 59 \<and>
   status (state (step exampleAnswering SubmitAnswer)) = PROCESSING_ANSWER \<and>
   step (step exampleAnswering SubmitAnswer) Tick = step exampleAnswering SubmitAnswer \<and>
   timeLeftSeconds (state (run exampleAnswering [SubmitAnswer, SettleTurn 0 exampleNext])) = 60 \<and>
   timeLeftSeconds (state (step exampleLastSecond Tick)) = 0 \<and>
   timeUpCount exampleAnswering (replicate 60 Tick) = 1"
proof -
  have a: "status (state exampleAnswering) = INTERVIEW_ACTIVE"
    and l: "timeLeftSeconds (state exampleAnswering) = 60"
    by (simp_all add: exampleAnswering_eq)
  have p: "status (state (step exampleAnswering SubmitAnswer)) = PROCESSING_ANSWER"
    by (simp add: exampleAnswering_eq model_defs)
  have e: "Tick \<notin> set [SubmitAnswer, SettleTurn 0 exampleNext] \<and>
           StartInterview \<notin> set [SubmitAnswer, SettleTurn 0 exampleNext]"
    by simp
  have n: "(60::int) = int (Suc 59)" and m: "(60::nat) = Suc 59"
    by simp_all
  have "timeLeftSeconds (state (step exampleAnswering Tick)) = 59"
    using timer_discipline [of exampleAnswering "[]" 0] a l by simp
  moreover have "step (step exampleAnswering SubmitAnswer) Tick = step exampleAnswering SubmitAnswer"
    using timer_discipline [of "step exampleAnswering SubmitAnswer" "[]" 0] p by simp
  moreover have "timeLeftSeconds (state (run exampleAnswering
      [SubmitAnswer, SettleTurn 0 exampleNext])) = 60"
  proof -
    have "timeLeftSeconds (state (run exampleAnswering
        [SubmitAnswer, SettleTurn 0 exampleNext])) = timeLeftSeconds (state exampleAnswering)"
      using timer_discipline [of exampleAnswering "[SubmitAnswer, SettleTurn 0 exampleNext]" 0] e
      by blast
    then show ?thesis
      by (simp only: l)
  qed
  moreover have "timeLeftSeconds (state (step exampleLastSecond Tick)) = 0"
    using timer_discipline [of exampleLastSecond "[]" 0] exampleLastSecond_timeUp by blast
  moreover have "timeUpCount exampleAnswering (replicate 60 Tick) = 1"
    using timer_discipline [of exampleAnswering "[]" 59] a l by (simp only: n m)
  ultimately show ?thesis
    using l p by blast
qed

section \<open>Payloads of the exchange client\<close>

text \<open>
  C9, as the claim states it, fails: a payload that is JSON but no turn result, such as
  \<^verbatim>\<open>{}\<close> or \<^verbatim>\<open>null\<close>, is no error for \<open>startSession\<close> and \<open>sendAnswer\<close>; the
  call succeeds and returns it.
\<close>

theorem unchecked_payload_counterexample:
  "startSession En (Responds (Some (ascii ''{}'')) (Some (JObject []))) = Inr (JObject []) \<and>
   startSession En (Responds (Some (ascii ''null'')) (Some JNull)) = Inr JNull \<and>
   sendAnswer True (ascii ''I am an engineer.'')
     (Responds (Some (ascii ''{}'')) (Some (JObject []))) = Inr (JObject []) \<and>
   sendAnswer True (ascii ''I am an engineer.'')
     (Responds (Some (ascii ''null'')) (Some JNull)) = Inr JNull"
  by (simp add: startSession_def sendAnswer_def falsy_def ascii_def)

text \<open>
  C9, amended. For both turn calls of the exchange client, a response without text or
  with an empty text is an error, and so is a text that does not parse. A text that
  parses is returned as the value it parsed to, with no check of its shape: a payload
  that lacks the fields of a turn result is returned as a success. A call that succeeds
  returns exactly that value, from a text that was there and not empty, so nothing is
  turned into empty strings.
\<close>

theorem malformed_payload_is_error:
  "(falsy text \<longrightarrow>
      startSession lang (Responds text parsed) = Inl NoResponseFromAI \<and>
      sendAnswer True ans (Responds text parsed) = Inl NoResponseFromAI) \<and>
   (\<not> falsy text \<longrightarrow>
      startSession lang (Responds text None) = Inl JsonSyntaxError \<and>
      sendAnswer True ans (Responds text None) = Inl JsonSyntaxError) \<and>
   (\<not> falsy text \<longrightarrow>
      startSession lang (Responds text (Some j)) = Inr j \<and>
      sendAnswer True ans (Responds text (Some j)) = Inr j) \<and>
   (startSession lang up = Inr r \<longrightarrow> (\<exists>t. up = Responds (Some t) (Some r) \<and> t \<noteq> [])) \<and>
   (sendAnswer session ans up = Inr r \<longrightarrow>
      session \<and> (\<exists>t. up = Responds (Some t) (Some r) \<and> t \<noteq> []))"
proof (intro conjI impI)
  assume "falsy text"
  then show "startSession lang (Responds text parsed) = Inl NoResponseFromAI"
    and "sendAnswer True ans (Responds text parsed) = Inl NoResponseFromAI"
    by (simp_all add: startSession_def sendAnswer_def)
next
  assume "\<not> falsy text"
  then show "startSession lang (Responds text None) = Inl JsonSyntaxError"
    and "sendAnswer True ans (Responds text None) = Inl JsonSyntaxError"
    by (simp_all add: startSession_def sendAnswer_def)
next
  assume "\<not> falsy text"
  then show "startSession lang (Responds text (Some j)) = Inr j"
    and "sendAnswer True ans (Responds text (Some j)) = Inr j"
    by (simp_all add: startSession_def sendAnswer_def)
next
  assume "startSession lang up = Inr r"
  then show "\<exists>t. up = Responds (Some t) (Some r) \<and> t \<noteq> []"
    by (cases up) (auto simp: startSession_def falsy_def split: if_splits option.splits)
next
  assume s: "sendAnswer session ans up = Inr r"
  then show "session"
    by (auto simp: sendAnswer_def split: if_splits)
  from s show "\<exists>t. up = Responds (Some t) (Some r) \<and> t \<noteq> []"
    by (cases up) (auto simp: sendAnswer_def falsy_def split: if_splits option.splits)
qed

theorem malformed_payload_is_error_witness:
  "startSession En (Responds (Some []) (Some (JObject []))) = Inl NoResponseFromAI \<and>
   sendAnswer True (ascii ''I am an engineer.'') (Responds None (Some (JObject []))) =
     Inl NoResponseFromAI \<and>
   startSession En (Responds (Some (ascii ''{'')) (None :: json option)) =
     Inl JsonSyntaxError \<and>
   sendAnswer True (ascii ''I am an engineer.'')
     (Responds (Some (ascii ''{'')) (None :: json option)) = Inl JsonSyntaxError \<and>
   startSession En (Responds (Some (ascii ''{}'')) (Some (JObject []))) = Inr (JObject []) \<and>
   sendAnswer True (ascii ''I am an engineer.'')
     (Responds (Some (ascii ''[]'')) (Some (JArray []))) = Inr (JArray [])"
proof -
  have f: "falsy (Some [])" "falsy None"
    and n: "\<not> falsy (Some (ascii ''{''))" "\<not> falsy (Some (ascii ''{}''))"
      "\<not> falsy (Some (ascii ''[]''))"
    by (simp_all add: falsy_def ascii_def)
  show ?thesis
    using malformed_payload_is_error
        [of "Some []" En "Some (JObject [])" "ascii ''I am an engineer.''" "JObject []"
            Rejects "JObject []" True]
      malformed_payload_is_error
        [of None En "Some (JObject [])" "ascii ''I am an engineer.''" "JObject []"
            Rejects "JObject []" True]
      malformed_payload_is_error
        [of "Some (ascii ''{'')" En None "ascii ''I am an engineer.''" "JObject []"
            Rejects "JObject []" True]
      malformed_payload_is_error
        [of "Some (ascii ''{}'')" En None "ascii ''I am an engineer.''" "JObject []"
            Rejects "JObject []" True]
      malformed_payload_is_error
        [of "Some (ascii ''[]'')" En None "ascii ''I am an engineer.''" "JArray []"
            Rejects "JArray []" True]
      f n
    by blast
qed

section \<open>Entering the idle status\<close>

lemma quit_step:
  assumes "enabled a QuitInterview"
  shows "step a QuitInterview =
           (stopListening (isListening a) a)
             \<lparr>state := (state a)\<lparr>status := IDLE, currentTranscript := []\<rparr>,
              timerClosure :=
                (if status (state a) \<noteq> IDLE
                 then \<lparr>c_state = (state a)\<lparr>status := IDLE, currentTranscript := []\<rparr>,
                       c_isListening = isListening (stopListening (isListening a) a)\<rparr>
                 else timerClosure a)\<rparr>"
  using assms
  by (simp add: step_def quitInterview_def render_def setState_def effects_def
      stopListening_def)

text \<open>
  C8, as the claim states it, fails: quitting the example session leaves the status idle
  and the ledger with its turn; a start that fails enters the idle status with the
  error message set; and returning home from the result leaves the status idle and the
  report in place.
\<close>

theorem idle_entry_counterexample:
  "status (state (step exampleActive QuitInterview)) = IDLE \<and>
   qnaHistory (state (step exampleActive QuitInterview)) =
     [\<lparr>id_q = 1, question = ascii ''Tell me about yourself'', answer = [],
       evaluation_q = None\<rparr>] \<and>
   status (state (run (initial True True) [StartInterview, SettleTurn 0 Rejects])) = IDLE \<and>
   error (state (run (initial True True) [StartInterview, SettleTurn 0 Rejects])) =
     Some msg_start_failed \<and>
   status (state (run exampleExpired [SettleReport 0 Rejects, ReturnHome])) = IDLE \<and>
   finalResult (state (run exampleExpired [SettleReport 0 Rejects, ReturnHome])) =
     Some (Placeholder (errorReport Ja))"
proof -
  have "enabled exampleActive QuitInterview"
    by (simp add: exampleActive_eq screen_def)
  then have "step exampleActive QuitInterview =
           (stopListening (isListening exampleActive) exampleActive)
             \<lparr>state := (state exampleActive)\<lparr>status := IDLE, currentTranscript := []\<rparr>,
              timerClosure :=
                (if status (state exampleActive) \<noteq> IDLE
                 then \<lparr>c_state = (state exampleActive)\<lparr>status := IDLE, currentTranscript := []\<rparr>,
                       c_isListening = isListening
                         (stopListening (isListening exampleActive) exampleActive)\<rparr>
                 else timerClosure exampleActive)\<rparr>"
    by (rule quit_step)
  then have "status (state (step exampleActive QuitInterview)) = IDLE"
    and "qnaHistory (state (step exampleActive QuitInterview)) =
     [\<lparr>id_q = 1, question = ascii ''Tell me about yourself'', answer = [],
       evaluation_q = None\<rparr>]"
    by (simp_all add: exampleActive_eq stopListening_def)
  moreover have "status (state (run (initial True True) [StartInterview, SettleTurn 0 Rejects])) =
      IDLE"
    and "error (state (run (initial True True) [StartInterview, SettleTurn 0 Rejects])) =
     Some msg_start_failed"
    by (simp_all add: model_defs)
  moreover have "status (state (run exampleExpired [SettleReport 0 Rejects, ReturnHome])) = IDLE"
    and "finalResult (state (run exampleExpired [SettleReport 0 Rejects, ReturnHome])) =
     Some (Placeholder (errorReport Ja))"
    by (simp_all add: exampleExpired_def exampleLastSecond_eq model_defs)
  ultimately show ?thesis by blast
qed

text \<open>
  C8, amended. The ledger, the report and the last error are reset by the start command,
  on the way from the idle status into the initializing one, and not on entering the idle
  status: quitting enters it with the active buffer cleared and the ledger, the report
  and the error as they were, returning home from the result enters it with all three as
  they were, and a start whose opening call fails enters it with the error message set.
\<close>

theorem idle_entry_actions:
  "(enabled a QuitInterview \<longrightarrow>
      status (state (step a QuitInterview)) = IDLE \<and>
      currentTranscript (state (step a QuitInterview)) = [] \<and>
      qnaHistory (state (step a QuitInterview)) = qnaHistory (state a) \<and>
      finalResult (state (step a QuitInterview)) = finalResult (state a) \<and>
      error (state (step a QuitInterview)) = error (state a)) \<and>
   (enabled a ReturnHome \<longrightarrow>
      status (state (step a ReturnHome)) = IDLE \<and>
      qnaHistory (state (step a ReturnHome)) = qnaHistory (state a) \<and>
      finalResult (state (step a ReturnHome)) = finalResult (state a) \<and>
      error (state (step a ReturnHome)) = error (state a)) \<and>
   (enabled a StartInterview \<and> apiKey a \<longrightarrow>
      status (state (step a StartInterview)) = INITIALIZING \<and>
      qnaHistory (state (step a StartInterview)) = [] \<and>
      finalResult (state (step a StartInterview)) = None \<and>
      error (state (step a StartInterview)) = None) \<and>
   (k < length (pending a) \<and> pending a ! k = StartSession c lang \<and>
    startSession lang up = Inl err \<longrightarrow>
      status (state (step a (SettleTurn k up))) = IDLE \<and>
      error (state (step a (SettleTurn k up))) = Some msg_start_failed \<and>
      qnaHistory (state (step a (SettleTurn k up))) = qnaHistory (state a) \<and>
      finalResult (state (step a (SettleTurn k up))) = finalResult (state a))"
proof (intro conjI impI)
  assume q: "enabled a QuitInterview"
  note s = quit_step [OF q]
  show "status (state (step a QuitInterview)) = IDLE"
    and "currentTranscript (state (step a QuitInterview)) = []"
    and "qnaHistory (state (step a QuitInterview)) = qnaHistory (state a)"
    and "finalResult (state (step a QuitInterview)) = finalResult (state a)"
    and "error (state (step a QuitInterview)) = error (state a)"
    by (simp_all add: s stopListening_def)
next
  assume "enabled a ReturnHome"
  then have s: "step a ReturnHome = effects a (setState (\<lambda>prev. prev\<lparr>status := IDLE\<rparr>) a)"
    by (simp add: step_def)
  show "status (state (step a ReturnHome)) = IDLE"
    and "qnaHistory (state (step a ReturnHome)) = qnaHistory (state a)"
    and "finalResult (state (step a ReturnHome)) = finalResult (state a)"
    and "error (state (step a ReturnHome)) = error (state a)"
    by (simp_all add: s effects_simps setState_def)
next
  assume "enabled a StartInterview \<and> apiKey a"
  then have s: "step a StartInterview = effects a (startInterview_begin (render a) a)"
    and k: "apiKey a"
    by (simp_all add: step_def)
  show "status (state (step a StartInterview)) = INITIALIZING"
    and "qnaHistory (state (step a StartInterview)) = []"
    and "finalResult (state (step a StartInterview)) = None"
    and "error (state (step a StartInterview)) = None"
    using k by (simp_all add: s effects_simps startInterview_begin_def setState_def)
next
  assume h: "k < length (pending a) \<and> pending a ! k = StartSession c lang \<and>
    startSession lang up = Inl err"
  then have s: "step a (SettleTurn k up) =
      effects a (startInterview_resume c (Inl err) (settled k a))"
    by (simp add: step_def isTurnCall_def)
  show "status (state (step a (SettleTurn k up))) = IDLE"
    and "error (state (step a (SettleTurn k up))) = Some msg_start_failed"
    and "qnaHistory (state (step a (SettleTurn k up))) = qnaHistory (state a)"
    and "finalResult (state (step a (SettleTurn k up))) = finalResult (state a)"
    by (simp_all add: s effects_simps startInterview_resume_def setState_def settled_def)
qed

theorem idle_entry_actions_witness:
  "enabled exampleActive QuitInterview \<and>
   status (state (step exampleActive QuitInterview)) = IDLE \<and>
   qnaHistory (state (step exampleActive QuitInterview)) = qnaHistory (state exampleActive) \<and>
   enabled (step exampleActive QuitInterview) StartInterview \<and>
   qnaHistory (state (step (step exampleActive QuitInterview) StartInterview)) = []"
proof -
  let ?b = "step exampleActive QuitInterview"
  have q: "enabled exampleActive QuitInterview"
    by (simp add: exampleActive_eq screen_def)
  have i: "status (state ?b) = IDLE"
    and h: "qnaHistory (state ?b) = qnaHistory (state exampleActive)"
    using idle_entry_actions [of exampleActive 0 "timerClosure exampleActive" Ja Rejects
        TransportError] q
    by blast+
  have k: "apiKey ?b" and u: "isSpeechSupported ?b"
    unfolding quit_step [OF q] by (simp_all add: exampleActive_eq stopListening_def)
  have e: "enabled ?b StartInterview"
    using i u by (simp add: screen_def)
  have "qnaHistory (state (step ?b StartInterview)) = []"
    using idle_entry_actions [of ?b 0 "timerClosure exampleActive" Ja Rejects TransportError] e k
    by blast
  with q i h e show ?thesis by blast
qed

section \<open>Responses of the turn call\<close>










text \<open>
  C3 at its failing input. The candidate has spoken an answer and switched the microphone
  off, submits, and the call is rejected: the status is active again, the ledger is the
  one before the submission and capture runs, but the active buffer, which held the
  answer, is empty.
\<close>

theorem turn_failure_at_failing_input:
  "currentTranscript (state exampleMicOff) = ascii ''I am an engineer.'' \<and>
   status (state (step exampleMicOff SubmitAnswer)) = PROCESSING_ANSWER \<and>
   status (state (run exampleMicOff [SubmitAnswer, SettleTurn 0 Rejects])) = INTERVIEW_ACTIVE \<and>
   qnaHistory (state (run exampleMicOff [SubmitAnswer, SettleTurn 0 Rejects])) =
     qnaHistory (state exampleMicOff) \<and>
   isListening (run exampleMicOff [SubmitAnswer, SettleTurn 0 Rejects]) \<and>
   currentTranscript (state (run exampleMicOff [SubmitAnswer, SettleTurn 0 Rejects])) = []"
  by (simp add: exampleMicOff_eq exampleAnswering_eq model_defs)

text \<open>
  With the microphone on at the submission the buffer is kept, and capture stays
  stopped: the \<open>startListening\<close> of the handler still holds the \<open>isListening\<close> of the
  render in which the answer was submitted.
\<close>

lemma turn_failure_microphone_on:
  "isListening exampleAnswering \<and>
   status (state (run exampleAnswering [SubmitAnswer, SettleTurn 0 Rejects])) = INTERVIEW_ACTIVE \<and>
   qnaHistory (state (run exampleAnswering [SubmitAnswer, SettleTurn 0 Rejects])) =
     qnaHistory (state exampleAnswering) \<and>
   \<not> isListening (run exampleAnswering [SubmitAnswer, SettleTurn 0 Rejects]) \<and>
   currentTranscript (state (run exampleAnswering [SubmitAnswer, SettleTurn 0 Rejects])) =
     ascii ''I am an engineer.''"
  by (simp add: exampleAnswering_eq model_defs)

end
